theory Spec2Isabelle
  imports Main "HOL-Library.Word" "HOL-Library.Char_ord" "HOL-Library.List_Lexorder"
    "HOL-Library.AList"
begin

section \<open>Strings as the Go code uses them\<close>

text \<open>
  A Go \<open>string\<close> is a sequence of bytes, modelled as \<open>string\<close> (a list of 8-bit
  characters). The helpers below are the functions of package \<open>strings\<close> that the
  ingress service calls. \<open>ToLower\<close> is modelled on the ASCII letters; bytes outside
  ASCII are kept.
\<close>

fun HasPrefix :: "string \<Rightarrow> string \<Rightarrow> bool" where
  "HasPrefix s [] = True"
| "HasPrefix [] (p # ps) = False"
| "HasPrefix (c # s) (p # ps) = (c = p \<and> HasPrefix s ps)"

fun Contains :: "string \<Rightarrow> string \<Rightarrow> bool" where
  "Contains [] sub = (sub = [])"
| "Contains (c # s) sub = (HasPrefix (c # s) sub \<or> Contains s sub)"

definition lowerChar :: "char \<Rightarrow> char" where
  "lowerChar c =
     (let n = (of_char c :: nat) in if 65 \<le> n \<and> n \<le> 90 then char_of (n + 32) else c)"

definition ToLower :: "string \<Rightarrow> string" where
  "ToLower s = map lowerChar s"

text \<open>\<open>strings.Cut(s, sep)\<close> for a one-byte separator: the text before the first
  separator, the text after it, and whether the separator was found.\<close>

fun Cut :: "char \<Rightarrow> string \<Rightarrow> string \<times> string \<times> bool" where
  "Cut sep [] = ([], [], False)"
| "Cut sep (c # s) =
     (if c = sep then ([], s, True)
      else (case Cut sep s of (pre, post, found) \<Rightarrow> (c # pre, post, found)))"

text \<open>\<open>strings.Split(s, sep)\<close> for a one-byte separator.\<close>

fun Split :: "char \<Rightarrow> string \<Rightarrow> string list" where
  "Split sep [] = [[]]"
| "Split sep (c # s) =
     (if c = sep then [] # Split sep s
      else (case Split sep s of [] \<Rightarrow> [[c]] | w # ws \<Rightarrow> (c # w) # ws))"

section \<open>The part of net/url that buildDestinationURL uses\<close>

text \<open>
  \<open>url.Values\<close> is a Go map from a key to the list of its values; it is modelled as an
  association list with distinct keys. \<open>Values.Add\<close> appends to the list of the key,
  \<open>Values.Encode\<close> prints the keys in sorted order.

  A parsed URL keeps the text before the query (scheme, authority and path) as written in
  \<open>Prefix\<close>; the model is exact for the URLs that Go prints back unchanged in that part.
  \<open>url.Parse\<close> fails here on an ASCII control byte, as Go does; Go's further checks on
  the scheme, the authority and the escapes of the path are outside the model.
\<close>

type_synonym url_Values = "(string \<times> string list) list"

record URL =
  Prefix :: string
  ForceQuery :: bool
  RawQuery :: string
  Fragment :: string

definition isCTL :: "char \<Rightarrow> bool" where
  "isCTL c = ((of_char c :: nat) < 32 \<or> (of_char c :: nat) = 127)"

definition url_Parse :: "string \<Rightarrow> URL option" where
  "url_Parse rawURL =
     (if list_ex isCTL rawURL then None
      else (case Cut (CHR ''#'') rawURL of (u, frag, _) \<Rightarrow>
        (if u \<noteq> [] \<and> last u = CHR ''?'' \<and> length (filter (\<lambda>c. c = CHR ''?'') u) = 1
         then Some \<lparr>Prefix = butlast u, ForceQuery = True, RawQuery = [], Fragment = frag\<rparr>
         else (case Cut (CHR ''?'') u of (rest, q, _) \<Rightarrow>
           Some \<lparr>Prefix = rest, ForceQuery = False, RawQuery = q, Fragment = frag\<rparr>))))"

definition url_String :: "URL \<Rightarrow> string" where
  "url_String u =
     Prefix u
     @ (if ForceQuery u \<or> RawQuery u \<noteq> [] then CHR ''?'' # RawQuery u else [])
     @ (if Fragment u \<noteq> [] then CHR ''#'' # Fragment u else [])"

definition unhex :: "char \<Rightarrow> nat option" where
  "unhex c =
     (let n = (of_char c :: nat) in
      if 48 \<le> n \<and> n \<le> 57 then Some (n - 48)
      else if 97 \<le> n \<and> n \<le> 102 then Some (n - 97 + 10)
      else if 65 \<le> n \<and> n \<le> 70 then Some (n - 65 + 10)
      else None)"

fun QueryUnescape :: "string \<Rightarrow> string option" where
  "QueryUnescape [] = Some []"
| "QueryUnescape (c # s) =
     (if c = CHR ''%'' then
        (case s of
           h # l # rest \<Rightarrow>
             (case (unhex h, unhex l, QueryUnescape rest) of
                (Some a, Some b, Some t) \<Rightarrow> Some (char_of (16 * a + b) # t)
              | _ \<Rightarrow> None)
         | _ \<Rightarrow> None)
      else (case QueryUnescape s of
              None \<Rightarrow> None
            | Some t \<Rightarrow> Some ((if c = CHR ''+'' then CHR '' '' else c) # t)))"

definition unreserved :: "char \<Rightarrow> bool" where
  "unreserved c =
     (let n = (of_char c :: nat) in
      (97 \<le> n \<and> n \<le> 122) \<or> (65 \<le> n \<and> n \<le> 90) \<or> (48 \<le> n \<and> n \<le> 57)
      \<or> c = CHR ''-'' \<or> c = CHR ''_'' \<or> c = CHR ''.'' \<or> c = CHR ''~'')"

definition upperhex :: "nat \<Rightarrow> char" where
  "upperhex n = (if n < 10 then char_of (48 + n) else char_of (55 + n))"

definition escapeChar :: "char \<Rightarrow> string" where
  "escapeChar c =
     (if unreserved c then [c]
      else if c = CHR '' '' then ''+''
      else [CHR ''%'', upperhex ((of_char c :: nat) div 16), upperhex ((of_char c :: nat) mod 16)])"

definition QueryEscape :: "string \<Rightarrow> string" where
  "QueryEscape s = concat (map escapeChar s)"

fun values_Add :: "url_Values \<Rightarrow> string \<Rightarrow> string \<Rightarrow> url_Values" where
  "values_Add [] key v = [(key, [v])]"
| "values_Add ((k, vs) # m) key v =
     (if k = key then (k, vs @ [v]) # m else (k, vs) # values_Add m key v)"


text \<open>\<open>url.ParseQuery\<close> as \<open>URL.Query()\<close> calls it: a malformed pair is skipped.\<close>

fun parsePairs :: "string list \<Rightarrow> url_Values \<Rightarrow> url_Values" where
  "parsePairs [] m = m"
| "parsePairs (pair # rest) m =
     (if CHR '';'' \<in> set pair \<or> pair = [] then parsePairs rest m
      else (case Cut (CHR ''='') pair of (k, v, _) \<Rightarrow>
        (case (QueryUnescape k, QueryUnescape v) of
           (Some key, Some val) \<Rightarrow> parsePairs rest (values_Add m key val)
         | _ \<Rightarrow> parsePairs rest m)))"

definition url_Query :: "URL \<Rightarrow> url_Values" where
  "url_Query u = parsePairs (Split (CHR ''&'') (RawQuery u)) []"

definition encodeKey :: "string \<times> string list \<Rightarrow> string list" where
  "encodeKey kv = map (\<lambda>v. QueryEscape (fst kv) @ ''='' @ QueryEscape v) (snd kv)"

fun joinAmp :: "string list \<Rightarrow> string" where
  "joinAmp [] = []"
| "joinAmp [s] = s"
| "joinAmp (s # t # ts) = s @ ''&'' @ joinAmp (t # ts)"

definition values_Encode :: "url_Values \<Rightarrow> string" where
  "values_Encode m = joinAmp (concat (map encodeKey (sort_key fst m)))"

section \<open>The routing engine (RoutingEngine in package ingestion)\<close>

text \<open>
  \<open>Priority\<close> is a Go \<open>int\<close>, 64 bits wide with wrap-around, compared as a signed
  number. The timestamps of a campaign play no part in routing and are left out. The field
  \<open>Field\<close> of a rule is written \<open>Field_rule\<close>.
\<close>

record Rule =
  Field_rule :: string
  Operator :: string
  Values :: "string list"
  Priority :: "64 word"

record Campaign =
  OrganizationID :: string
  CampaignID :: string
  Name :: string
  Status :: string
  Rules :: "Rule list"
  DestinationURL :: string
  AppendParams :: bool

text \<open>
  \<open>re.campaigns\<close> is a Go map from the key \<open>org_id/campaign_id\<close> to a campaign. It is
  modelled as the list of its entries, with distinct keys, in the order in which a
  \<open>range\<close> loop over the map visits them; Go leaves that order unspecified, so every
  order of the entries is a possible run. The request parameters
  (\<open>map[string][]string\<close>) are modelled the same way.
\<close>

type_synonym campaigns = "(string \<times> Campaign) list"
type_synonym params = "(string \<times> string list) list"

definition getCampaign :: "campaigns \<Rightarrow> string \<Rightarrow> Campaign option" where
  "getCampaign cs key = map_of cs key"

definition ruleMatches :: "Rule \<Rightarrow> (string \<times> string) list \<Rightarrow> bool" where
  "ruleMatches rule ps =
     (case map_of ps (Field_rule rule) of
        None \<Rightarrow> False
      | Some paramValue \<Rightarrow>
          if Operator rule = ''equals'' then list_ex (\<lambda>v. paramValue = v) (Values rule)
          else if Operator rule = ''contains''
            then list_ex (\<lambda>v. Contains (ToLower paramValue) (ToLower v)) (Values rule)
          else if Operator rule = ''in'' then list_ex (\<lambda>v. paramValue = v) (Values rule)
          else if Operator rule = ''prefix'' then list_ex (\<lambda>v. HasPrefix paramValue v) (Values rule)
          else False)"

fun scoreRules :: "Rule list \<Rightarrow> (string \<times> string) list \<Rightarrow> 64 word \<Rightarrow> 64 word" where
  "scoreRules [] ps score = score"
| "scoreRules (rule # rules) ps score =
     scoreRules rules ps (if ruleMatches rule ps then score + Priority rule else score)"

definition calculateMatchScore :: "Campaign \<Rightarrow> (string \<times> string) list \<Rightarrow> 64 word" where
  "calculateMatchScore campaign ps = scoreRules (Rules campaign) ps 0"

text \<open>The loop of findBestMatch that flattens the parameters to their first values.\<close>

fun flatParams :: "params \<Rightarrow> (string \<times> string) list \<Rightarrow> (string \<times> string) list" where
  "flatParams [] flat = flat"
| "flatParams ((key, vs) # rest) flat =
     (case vs of
        [] \<Rightarrow> flatParams rest flat
      | v # _ \<Rightarrow> flatParams rest (AList.update key v flat))"

text \<open>The loop of findBestMatch over the entries of the map, with its two local
  variables \<open>bestMatch\<close> and \<open>bestScore\<close>.\<close>

fun scanCampaigns ::
  "campaigns \<Rightarrow> string \<Rightarrow> (string \<times> string) list \<Rightarrow> Campaign option \<times> 64 word
     \<Rightarrow> Campaign option \<times> 64 word" where
  "scanCampaigns [] organizationID flat best = best"
| "scanCampaigns ((key, campaign) # rest) organizationID flat (bestMatch, bestScore) =
     (if \<not> HasPrefix key (organizationID @ ''/'')
        then scanCampaigns rest organizationID flat (bestMatch, bestScore)
      else if Status campaign \<noteq> ''active''
        then scanCampaigns rest organizationID flat (bestMatch, bestScore)
      else (let score = calculateMatchScore campaign flat in
            if bestScore <s score
              then scanCampaigns rest organizationID flat (Some campaign, score)
              else scanCampaigns rest organizationID flat (bestMatch, bestScore)))"

definition findBestMatch :: "campaigns \<Rightarrow> string \<Rightarrow> params \<Rightarrow> Campaign option" where
  "findBestMatch cs organizationID ps =
     fst (scanCampaigns cs organizationID (flatParams ps []) (None, 0))"

text \<open>The loop of buildDestinationURL that adds every inbound value to the query.\<close>

fun addValues :: "url_Values \<Rightarrow> string \<Rightarrow> string list \<Rightarrow> url_Values" where
  "addValues query key [] = query"
| "addValues query key (v # vs) = addValues (values_Add query key v) key vs"

fun addParams :: "url_Values \<Rightarrow> params \<Rightarrow> url_Values" where
  "addParams query [] = query"
| "addParams query ((key, vs) # rest) = addParams (addValues query key vs) rest"

definition buildDestinationURL :: "Campaign \<Rightarrow> params \<Rightarrow> string" where
  "buildDestinationURL campaign ps =
     (let baseURL = DestinationURL campaign in
      if \<not> AppendParams campaign \<or> length ps = 0 then baseURL
      else (case url_Parse baseURL of
              None \<Rightarrow> baseURL
            | Some parsedURL \<Rightarrow>
                url_String (parsedURL\<lparr>RawQuery := values_Encode (addParams (url_Query parsedURL) ps)\<rparr>)))"

definition GetDestination :: "campaigns \<Rightarrow> string \<Rightarrow> string \<Rightarrow> params \<Rightarrow> string" where
  "GetDestination cs organizationID campaignID ps =
     (case (if campaignID \<noteq> []
            then (case getCampaign cs (organizationID @ ''/'' @ campaignID) of
                    Some campaign \<Rightarrow> if Status campaign = ''active'' then Some campaign else None
                  | None \<Rightarrow> None)
            else None) of
        Some campaign \<Rightarrow> buildDestinationURL campaign ps
      | None \<Rightarrow>
          (case findBestMatch cs organizationID ps of
             Some campaign \<Rightarrow> buildDestinationURL campaign ps
           | None \<Rightarrow>
               (case getCampaign cs (organizationID @ ''/default'') of
                  Some defaultCampaign \<Rightarrow> buildDestinationURL defaultCampaign ps
                | None \<Rightarrow> ''https://example.com/'')))"

section \<open>Authentication (package auth)\<close>

text \<open>
  The messages of the identity service (Warden) are declared in another repository. The
  model keeps the fields that validateAPIKey reads, with the sub-messages of an
  organization entry present. A remote call returns an error (\<open>Inl\<close>) or its response.
\<close>

record OrganizationContext =
  CtxOrganizationID :: string
  OrganizationSlug :: string
  AccountID :: string
  Role :: string
  Permissions :: "string list"

record AccountOrganization =
  Org_Id :: string
  Org_Slug :: string
  Membership_Role :: string
  Membership_Permissions :: "string list"

record WardenClient =
  ValidateApiKey :: "string \<Rightarrow> string + string"
  GetAccountOrganizations :: "string \<Rightarrow> string + AccountOrganization list"

text \<open>
  validateAPIKey returns a pointer and an error. The pointer is an option (\<open>None\<close> is
  \<open>nil\<close>), and so is the error. With an empty organization list the code runs
  \<open>return nil, err\<close> where \<open>err\<close> is the \<open>nil\<close> error of the call that just succeeded.
\<close>

definition validateAPIKey ::
  "WardenClient \<Rightarrow> string \<Rightarrow> OrganizationContext option \<times> string option" where
  "validateAPIKey w apiKey =
     (case ValidateApiKey w apiKey of
        Inl err \<Rightarrow> (None, Some err)
      | Inr accountId \<Rightarrow>
          (case GetAccountOrganizations w accountId of
             Inl err \<Rightarrow> (None, Some err)
           | Inr organizations \<Rightarrow>
               (case organizations of
                  [] \<Rightarrow> (None, None)
                | org # _ \<Rightarrow>
                    (Some \<lparr>CtxOrganizationID = Org_Id org,
                           OrganizationSlug = Org_Slug org,
                           AccountID = accountId,
                           Role = Membership_Role org,
                           Permissions = Membership_Permissions org\<rparr>, None))))"

section \<open>Requests, responses and the world around a handler\<close>

text \<open>
  The body of a request is what \<open>io.ReadAll\<close> makes of it: there is no body
  (\<open>r.Body == nil\<close>), the read returns all bytes, or the read fails.

  \<open>CtxValue\<close> is the value stored in the request context under
  \<open>OrganizationContextKey\<close>: \<open>None\<close> when nothing is stored, \<open>Some None\<close> when a
  \<open>nil\<close> pointer of type \<open>*OrganizationContext\<close> is stored, \<open>Some (Some c)\<close>
  otherwise. The keys of \<open>ReqHeader\<close> are in the canonical form in which net/http
  stores them. \<open>URLParam_campaign_id\<close> is \<open>chi.URLParam(r, "campaign_id")\<close>, empty on
  the route \<open>/in\<close>.
\<close>

datatype BodyReader = NilBody | Readable string | Failing

record Request =
  ReqMethod :: string
  ReqURL :: string
  ReqPath :: string
  ReqQuery :: params
  ReqHeader :: "(string \<times> string list) list"
  ReqBody :: BodyReader
  RemoteAddr :: string
  CtxValue :: "OrganizationContext option option"
  URLParam_campaign_id :: string

record Response =
  StatusCode :: nat
  RespHeader :: "(string \<times> string) list"
  RespBody :: string

text \<open>A handler writes a response or panics (a \<open>nil\<close> pointer is dereferenced).\<close>

datatype HandlerResult = Responded Response | Panicked

definition http_Error :: "string \<Rightarrow> nat \<Rightarrow> Response" where
  "http_Error msg code =
     \<lparr>StatusCode = code,
      RespHeader = [(''Content-Type'', ''text/plain; charset=utf-8''),
                    (''X-Content-Type-Options'', ''nosniff'')],
      RespBody = msg @ [char_of (10::nat)]\<rparr>"

text \<open>\<open>http.Redirect\<close> for an absolute destination; the short HTML body that net/http
  adds for GET is left out.\<close>

definition http_Redirect :: "string \<Rightarrow> nat \<Rightarrow> Response" where
  "http_Redirect url code =
     \<lparr>StatusCode = code, RespHeader = [(''Location'', url)], RespBody = []\<rparr>"

definition header_Get :: "(string \<times> string list) list \<Rightarrow> string \<Rightarrow> string" where
  "header_Get h key = (case map_of h key of Some (v # _) \<Rightarrow> v | _ \<Rightarrow> [])"

definition query_Get :: "params \<Rightarrow> string \<Rightarrow> string" where
  "query_Get q key = (case map_of q key of Some (v # _) \<Rightarrow> v | _ \<Rightarrow> [])"

definition TrimPrefix :: "string \<Rightarrow> string \<Rightarrow> string" where
  "TrimPrefix s prefix = (if HasPrefix s prefix then drop (length prefix) s else s)"

definition isSpace :: "char \<Rightarrow> bool" where
  "isSpace c = (let n = (of_char c :: nat) in (9 \<le> n \<and> n \<le> 13) \<or> n = 32)"

definition TrimSpace :: "string \<Rightarrow> string" where
  "TrimSpace s = rev (dropWhile isSpace (rev (dropWhile isSpace s)))"

text \<open>\<open>strings.LastIndex(s, ":")\<close>: the position of the last colon, if there is one.\<close>

fun LastIndex :: "char \<Rightarrow> string \<Rightarrow> nat option" where
  "LastIndex sep [] = None"
| "LastIndex sep (c # s) =
     (case LastIndex sep s of
        Some i \<Rightarrow> Some (Suc i)
      | None \<Rightarrow> if c = sep then Some 0 else None)"

definition GetOrganizationContext ::
  "OrganizationContext option option \<Rightarrow> OrganizationContext option \<times> bool" where
  "GetOrganizationContext v = (case v of None \<Rightarrow> (None, False) | Some p \<Rightarrow> (p, True))"

text \<open>
  The result of the middleware: the request is answered at once, or \<open>next.ServeHTTP\<close> is
  called with the pointer returned by validateAPIKey stored in the context.
\<close>

datatype MiddlewareResult = Rejected Response | Next "OrganizationContext option"

definition AuthenticationMiddleware :: "WardenClient \<Rightarrow> Request \<Rightarrow> MiddlewareResult" where
  "AuthenticationMiddleware w r =
     (let authHeader = header_Get (ReqHeader r) ''Authorization'' in
      if authHeader = [] then Rejected (http_Error ''Missing Authorization header'' 401)
      else if \<not> HasPrefix authHeader ''Bearer ''
        then Rejected (http_Error ''Invalid Authorization header format'' 401)
      else (let apiKey = TrimPrefix authHeader ''Bearer '' in
            if \<not> HasPrefix apiKey ''wdn_'' then Rejected (http_Error ''Invalid API key format'' 401)
            else (case validateAPIKey w apiKey of
                    (orgCtx, Some err) \<Rightarrow> Rejected (http_Error ''Invalid API key'' 401)
                  | (orgCtx, None) \<Rightarrow> Next orgCtx)))"

section \<open>Captured events and the handlers (package ingestion)\<close>

text \<open>
  The handlers are modelled with the Pub/Sub topic, the Redis client and the routing
  engine that NewHandler takes in place. \<open>Enriched\<close> and \<open>FraudScore\<close> of an event
  are never set by the handlers and are left out. \<open>Body\<close> is a \<open>json.RawMessage\<close>:
  \<open>None\<close> is \<open>nil\<close>. The fields \<open>OrganizationID\<close> and \<open>CampaignID\<close> of an event
  are written \<open>EvOrganizationID\<close> and \<open>EvCampaignID\<close>, its field \<open>RawRequest\<close> is
  \<open>Raw\<close>, and the field \<open>URL\<close> of a raw request is \<open>URL_raw\<close>; the organization id
  of the context is \<open>CtxOrganizationID\<close>.
\<close>

record RawRequest =
  Method :: string
  URL_raw :: string
  Path :: string
  Headers :: "(string \<times> string) list"
  Body :: "string option"
  IP :: string
  Params :: params

record Event =
  EventID :: string
  Timestamp :: int
  EvOrganizationID :: string
  ClickID :: string
  EvCampaignID :: string
  Raw :: RawRequest
  FraudFlags :: "string list"

record Message =
  Data :: Event
  Attributes :: "(string \<times> string) list"

text \<open>
  The world a handler acts on: the keys of the Redis store with the time at which each
  expires, the messages that the Pub/Sub topic has accepted, and the log lines written.
  The code has no other store for events.
\<close>

record Sys =
  redis :: "(string \<times> int) list"
  topic :: "Message list"
  logs :: "string list"

text \<open>
  What one request takes from its surroundings: the two identifiers that \<open>uuid.New\<close>
  may be asked for, the clock in nanoseconds, whether the Redis call fails, how the
  asynchronous publish ends, and whether the publishing goroutine of HandleTraffic
  marshals the event before or after the handler has run the dedup check.
\<close>

datatype PublishResult = Published | MarshalError | PublishError

record Env =
  uuid_event :: string
  uuid_click :: string
  now :: int
  redisError :: bool
  publishResult :: PublishResult
  marshalBeforeDedup :: bool

text \<open>extractClickID: the first alias with a non-empty value, else a fresh identifier.\<close>

fun firstClickID :: "params \<Rightarrow> string list \<Rightarrow> string option" where
  "firstClickID q [] = None"
| "firstClickID q (param # rest) =
     (if query_Get q param \<noteq> [] then Some (query_Get q param) else firstClickID q rest)"

definition extractClickID :: "Request \<Rightarrow> Env \<Rightarrow> string" where
  "extractClickID r env =
     (case firstClickID (ReqQuery r) [''click_id'', ''clickid'', ''cid'', ''transaction_id'', ''tid''] of
        Some clickID \<Rightarrow> clickID
      | None \<Rightarrow> uuid_click env)"

definition getRealIP :: "Request \<Rightarrow> string" where
  "getRealIP r =
     (let xff = header_Get (ReqHeader r) ''X-Forwarded-For'' in
      if xff \<noteq> [] then
        (case Cut (CHR '','') xff of (pre, _, found) \<Rightarrow> if found then TrimSpace pre else xff)
      else (let xri = header_Get (ReqHeader r) ''X-Real-Ip'' in
            if xri \<noteq> [] then xri
            else (case LastIndex (CHR '':'') (RemoteAddr r) of
                    Some idx \<Rightarrow> take idx (RemoteAddr r)
                  | None \<Rightarrow> RemoteAddr r)))"

fun flattenHeaders :: "(string \<times> string list) list \<Rightarrow> (string \<times> string) list \<Rightarrow> (string \<times> string) list" where
  "flattenHeaders [] flat = flat"
| "flattenHeaders ((key, vs) # rest) flat =
     (case vs of
        [] \<Rightarrow> flattenHeaders rest flat
      | v # _ \<Rightarrow> flattenHeaders rest (AList.update (ToLower key) v flat))"

text \<open>readBody reads the whole body with \<open>io.ReadAll\<close>; it has no limit on the length.\<close>

definition readBody :: "Request \<Rightarrow> Sys \<Rightarrow> string option \<times> Sys" where
  "readBody r s =
     (case ReqBody r of
        NilBody \<Rightarrow> (None, s)
      | Failing \<Rightarrow> (None, s\<lparr>logs := logs s @ [''failed to read request body'']\<rparr>)
      | Readable body \<Rightarrow> (Some body, s))"

definition servePixel :: Response where
  "servePixel =
     \<lparr>StatusCode = 200,
      RespHeader = [(''Content-Type'', ''image/gif''),
                    (''Cache-Control'', ''no-cache, no-store, must-revalidate''),
                    (''Pragma'', ''no-cache''),
                    (''Expires'', ''0'')],
      RespBody = map char_of
        [0x47, 0x49, 0x46, 0x38, 0x39, 0x61, 0x01, 0x00,
         0x01, 0x00, 0x80, 0x00, 0x00, 0x00, 0x00, 0x00,
         0x00, 0x00, 0x00, 0x21, 0xF9, 0x04, 0x01, 0x00,
         0x00, 0x00, 0x00, 0x2C, 0x00, 0x00, 0x00, 0x00,
         0x01, 0x00, 0x01, 0x00, 0x00, 0x02, 0x02, 0x04,
         0x01, 0x00, 0x3B :: nat]\<rparr>"

text \<open>
  \<open>SetNX key 1 ttl\<close> on the Redis store at time \<open>t\<close>: the key is set, and \<open>True\<close>
  returned, when it is absent or has expired.
\<close>

definition SetNX :: "(string \<times> int) list \<Rightarrow> string \<Rightarrow> int \<Rightarrow> int \<Rightarrow> bool \<times> (string \<times> int) list" where
  "SetNX store key t ttl =
     (case map_of store key of
        Some expiry \<Rightarrow>
          if t < expiry then (False, store) else (True, AList.update key (t + ttl) store)
      | None \<Rightarrow> (True, AList.update key (t + ttl) store))"

definition isDuplicate :: "string \<Rightarrow> string \<Rightarrow> Env \<Rightarrow> Sys \<Rightarrow> bool \<times> Sys" where
  "isDuplicate organizationID clickID env s =
     (if clickID = [] then (False, s)
      else (let key = ''click:'' @ organizationID @ '':'' @ clickID in
            if redisError env then (False, s\<lparr>logs := logs s @ [''redis dedup check failed'']\<rparr>)
            else (case SetNX (redis s) key (now env) 5000000000 of
                    (ok, store) \<Rightarrow> (\<not> ok, s\<lparr>redis := store\<rparr>))))"

text \<open>
  The asynchronous publish, run to its end. publishEvent and the goroutine written out in
  HandleTraffic differ only in the attributes of the message. When marshalling or the
  publish fails the code writes a log line and returns.
\<close>

definition publish :: "(string \<times> string) list \<Rightarrow> Event \<Rightarrow> Env \<Rightarrow> Sys \<Rightarrow> Sys" where
  "publish attrs e env s =
     (case publishResult env of
        MarshalError \<Rightarrow> s\<lparr>logs := logs s @ [''failed to marshal event'']\<rparr>
      | PublishError \<Rightarrow> s\<lparr>logs := logs s @ [''failed to publish event'']\<rparr>
      | Published \<Rightarrow> s\<lparr>topic := topic s @ [\<lparr>Data = e, Attributes = attrs\<rparr>]\<rparr>)"

definition publishEvent :: "Event \<Rightarrow> Env \<Rightarrow> Sys \<Rightarrow> Sys" where
  "publishEvent event env s =
     publish [(''event_id'', EventID event),
              (''click_id'', ClickID event),
              (''organization_id'', EvOrganizationID event)] event env s"

definition publishTraffic :: "Event \<Rightarrow> Env \<Rightarrow> Sys \<Rightarrow> Sys" where
  "publishTraffic e env s =
     publish [(''event_id'', EventID e),
              (''click_id'', ClickID e),
              (''campaign_id'', EvCampaignID e),
              (''organization_id'', EvOrganizationID e)] e env s"

definition newEvent :: "OrganizationContext \<Rightarrow> string \<Rightarrow> string \<Rightarrow> string option \<Rightarrow> Request \<Rightarrow> Env \<Rightarrow> Event" where
  "newEvent orgCtx clickID method body r env =
     \<lparr>EventID = uuid_event env,
      Timestamp = now env,
      EvOrganizationID = CtxOrganizationID orgCtx,
      ClickID = clickID,
      EvCampaignID = [],
      Raw = \<lparr>Method = method,
             URL_raw = ReqURL r,
             Path = ReqPath r,
             Headers = flattenHeaders (ReqHeader r) [],
             Body = body,
             IP = getRealIP r,
             Params = ReqQuery r\<rparr>,
      FraudFlags = []\<rparr>"

text \<open>
  HandleTraffic. The goroutine that publishes the event is started before the dedup check;
  it shares the event with the handler, so the message carries the event as it is when the
  goroutine marshals it: before the check (\<open>marshalBeforeDedup\<close>) or after it.
\<close>

definition HandleTraffic :: "campaigns \<Rightarrow> Request \<Rightarrow> Env \<Rightarrow> Sys \<Rightarrow> HandlerResult \<times> Sys" where
  "HandleTraffic cs r env s =
     (case GetOrganizationContext (CtxValue r) of
        (_, False) \<Rightarrow> (Responded (http_Error ''Organization context not found'' 500), s)
      | (None, True) \<Rightarrow> (Panicked, s)
      | (Some orgCtx, True) \<Rightarrow>
          (case readBody r s of
             (body, s1) \<Rightarrow>
               (let event0 = newEvent orgCtx (extractClickID r env) (ReqMethod r) body r env;
                    campaignID = URLParam_campaign_id r;
                    event1 = (if campaignID \<noteq> []
                              then event0\<lparr>EvCampaignID := CtxOrganizationID orgCtx @ ''/'' @ campaignID\<rparr>
                              else event0)
                in (case isDuplicate (EvOrganizationID event1) (ClickID event1) env s1 of
                      (dup, s2) \<Rightarrow>
                        (let event2 = (if dup
                                       then event1\<lparr>FraudFlags := FraudFlags event1 @ [''duplicate_click'']\<rparr>
                                       else event1);
                             s3 = publishTraffic (if marshalBeforeDedup env then event1 else event2) env s2;
                             destination = GetDestination cs (EvOrganizationID event2) (EvCampaignID event2)
                                             (Params (Raw event2))
                         in (Responded (http_Redirect destination 302), s3))))))"

definition HandlePixel :: "Request \<Rightarrow> Env \<Rightarrow> Sys \<Rightarrow> HandlerResult \<times> Sys" where
  "HandlePixel r env s =
     (case GetOrganizationContext (CtxValue r) of
        (_, False) \<Rightarrow> (Responded servePixel, s)
      | (None, True) \<Rightarrow> (Panicked, s)
      | (Some orgCtx, True) \<Rightarrow>
          (let event = newEvent orgCtx (extractClickID r env) ''GET'' None r env
           in (Responded servePixel, publishEvent event env s)))"


section \<open>Concrete data: scenario S1 and an identity service\<close>

definition summer :: Campaign where
  "summer =
     \<lparr>OrganizationID = ''org_A'', CampaignID = ''summer'', Name = ''Summer'',
      Status = ''active'', Rules = [], DestinationURL = ''https://shop.example.com/s'',
      AppendParams = True\<rparr>"

definition ctx_A :: OrganizationContext where
  "ctx_A =
     \<lparr>CtxOrganizationID = ''org_A'', OrganizationSlug = ''a'', AccountID = ''acct_1'',
      Role = ''owner'', Permissions = [''traffic:write'']\<rparr>"

definition req_S1 :: Request where
  "req_S1 =
     \<lparr>ReqMethod = ''GET'', ReqURL = ''/in/summer?click_id=abc&src=fb'',
      ReqPath = ''/in/summer'',
      ReqQuery = [(''click_id'', [''abc'']), (''src'', [''fb''])],
      ReqHeader = [(''Authorization'', [''Bearer wdn_A''])],
      ReqBody = Readable [], RemoteAddr = ''203.0.113.9:40000'',
      CtxValue = Some (Some ctx_A), URLParam_campaign_id = ''summer''\<rparr>"

definition env0 :: Env where
  "env0 =
     \<lparr>uuid_event = ''e-1'', uuid_click = ''c-1'', now = 0, redisError = False,
      publishResult = Published, marshalBeforeDedup = True\<rparr>"

definition sys0 :: Sys where
  "sys0 = \<lparr>redis = [], topic = [], logs = []\<rparr>"

definition org_A :: AccountOrganization where
  "org_A =
     \<lparr>Org_Id = ''org_A'', Org_Slug = ''a'', Membership_Role = ''owner'',
      Membership_Permissions = [''traffic:write'']\<rparr>"

definition org_B :: AccountOrganization where
  "org_B =
     \<lparr>Org_Id = ''org_B'', Org_Slug = ''b'', Membership_Role = ''viewer'',
      Membership_Permissions = []\<rparr>"

text \<open>An identity service that accepts the key \<open>wdn_A\<close> for the account \<open>acct_1\<close> and
  returns the given organizations for every account.\<close>

definition warden :: "AccountOrganization list \<Rightarrow> WardenClient" where
  "warden orgs =
     \<lparr>ValidateApiKey = (\<lambda>k. if k = ''wdn_A'' then Inr ''acct_1'' else Inl ''unauthenticated''),
      GetAccountOrganizations = (\<lambda>a. Inr orgs)\<rparr>"

text \<open>The request of scenario S3, \<open>/in?click_id=dup1\<close>, and a postback with a body
  of ten bytes.\<close>

definition req_in :: Request where
  "req_in =
     \<lparr>ReqMethod = ''GET'', ReqURL = ''/in?click_id=dup1'', ReqPath = ''/in'',
      ReqQuery = [(''click_id'', [''dup1''])],
      ReqHeader = [(''Authorization'', [''Bearer wdn_A''])],
      ReqBody = Readable [], RemoteAddr = ''203.0.113.9:40000'',
      CtxValue = Some (Some ctx_A), URLParam_campaign_id = []\<rparr>"


text \<open>Two campaigns of \<open>org_A\<close> with the same single rule, hence the same score on a
  request with \<open>src=fb\<close>.\<close>

definition rule_fb :: Rule where
  "rule_fb = \<lparr>Field_rule = ''src'', Operator = ''equals'', Values = [''fb''], Priority = 5\<rparr>"

definition camp_a :: Campaign where
  "camp_a =
     \<lparr>OrganizationID = ''org_A'', CampaignID = ''a'', Name = ''A'', Status = ''active'',
      Rules = [rule_fb], DestinationURL = ''https://a.example.com/'', AppendParams = False\<rparr>"

definition camp_b :: Campaign where
  "camp_b =
     \<lparr>OrganizationID = ''org_A'', CampaignID = ''b'', Name = ''B'', Status = ''active'',
      Rules = [rule_fb], DestinationURL = ''https://b.example.com/'', AppendParams = False\<rparr>"

text \<open>A campaign of the tenant \<open>acme/eu\<close>, stored under the key \<open>acme/eu/promo\<close>, and
  a request of the tenant \<open>acme\<close>.\<close>

definition camp_eu :: Campaign where
  "camp_eu =
     \<lparr>OrganizationID = ''acme/eu'', CampaignID = ''promo'', Name = ''Promo'',
      Status = ''active'', Rules = [rule_fb],
      DestinationURL = ''https://eu.example.com/promo'', AppendParams = False\<rparr>"

definition ctx_acme :: OrganizationContext where
  "ctx_acme =
     \<lparr>CtxOrganizationID = ''acme'', OrganizationSlug = ''acme'', AccountID = ''acct_2'',
      Role = ''owner'', Permissions = []\<rparr>"

definition req_acme :: Request where
  "req_acme =
     \<lparr>ReqMethod = ''GET'', ReqURL = ''/in?src=fb'', ReqPath = ''/in'',
      ReqQuery = [(''src'', [''fb''])],
      ReqHeader = [(''Authorization'', [''Bearer wdn_acme''])],
      ReqBody = Readable [], RemoteAddr = ''203.0.113.9:40000'',
      CtxValue = Some (Some ctx_acme), URLParam_campaign_id = []\<rparr>"

section \<open>Notions used to state the properties\<close>

definition statusOf :: "HandlerResult \<Rightarrow> nat option" where
  "statusOf res = (case res of Responded resp \<Rightarrow> Some (StatusCode resp) | Panicked \<Rightarrow> None)"

text \<open>An entry of the map passes the two filters of findBestMatch: its key starts with
  the organization id and a slash, and its campaign is active.\<close>

definition eligible :: "string \<Rightarrow> string \<times> Campaign \<Rightarrow> bool" where
  "eligible organizationID kc =
     (HasPrefix (fst kc) (organizationID @ ''/'') \<and> Status (snd kc) = ''active'')"

text \<open>
  In the order \<open>cs\<close> in which the loop visits the map, \<open>c\<close> is the first entry that
  passes the filters with the highest score, and that score is above \<open>bs\<close>.
\<close>

definition firstBest ::
  "string \<Rightarrow> (string \<times> string) list \<Rightarrow> campaigns \<Rightarrow> 64 word \<Rightarrow> Campaign \<Rightarrow> bool" where
  "firstBest org flat cs bs c =
     (\<exists>pre key post. cs = pre @ (key, c) # post \<and> eligible org (key, c)
        \<and> sint bs < sint (calculateMatchScore c flat)
        \<and> (\<forall>kc\<in>set pre. eligible org kc \<longrightarrow>
              sint (calculateMatchScore (snd kc) flat) < sint (calculateMatchScore c flat))
        \<and> (\<forall>kc\<in>set post. eligible org kc \<longrightarrow>
              sint (calculateMatchScore (snd kc) flat) \<le> sint (calculateMatchScore c flat)))"




text \<open>The second request of scenario S3 arrives one second after the first.\<close>

definition env1 :: Env where
  "env1 = env0\<lparr>uuid_event := ''e-2'', now := 1000000000\<rparr>"

section \<open>Properties of the authentication middleware\<close>

lemma HasPrefix_append: "HasPrefix (p @ s) p"
  by (induction p) simp_all

lemma TrimPrefix_append: "TrimPrefix (p @ s) p = s"
  by (simp add: TrimPrefix_def HasPrefix_append)

text \<open>
  Claim C10. When the identity service accepts the key and returns the organizations of
  the account, the context that the middleware installs is built from the first
  organization of the list, however many follow it. When the list is empty,
  validateAPIKey returns a \<open>nil\<close> context with a \<open>nil\<close> error and the middleware calls the
  next handler with the \<open>nil\<close> context; authentication does not fail.
\<close>

theorem validateAPIKey_first_organization:
  assumes "ValidateApiKey w apiKey = Inr accountId"
    and "GetAccountOrganizations w accountId = Inr organizations"
    and "header_Get (ReqHeader r) ''Authorization'' = ''Bearer '' @ apiKey"
    and "HasPrefix apiKey ''wdn_''"
  shows "(organizations = [] \<longrightarrow>
            validateAPIKey w apiKey = (None, None) \<and> AuthenticationMiddleware w r = Next None)
       \<and> (\<forall>org rest. organizations = org # rest \<longrightarrow>
            validateAPIKey w apiKey =
              (Some \<lparr>CtxOrganizationID = Org_Id org, OrganizationSlug = Org_Slug org,
                     AccountID = accountId, Role = Membership_Role org,
                     Permissions = Membership_Permissions org\<rparr>, None)
            \<and> AuthenticationMiddleware w r =
              Next (Some \<lparr>CtxOrganizationID = Org_Id org, OrganizationSlug = Org_Slug org,
                     AccountID = accountId, Role = Membership_Role org,
                     Permissions = Membership_Permissions org\<rparr>))"
proof -
  have pre: "HasPrefix (''Bearer '' @ apiKey) ''Bearer ''"
    by (rule HasPrefix_append)
  have trim: "TrimPrefix (''Bearer '' @ apiKey) ''Bearer '' = apiKey"
    by (rule TrimPrefix_append)
  have mw: "AuthenticationMiddleware w r =
      (case validateAPIKey w apiKey of
         (orgCtx, Some err) \<Rightarrow> Rejected (http_Error ''Invalid API key'' 401)
       | (orgCtx, None) \<Rightarrow> Next orgCtx)"
    unfolding AuthenticationMiddleware_def Let_def
    using assms(3,4) pre trim by simp
  show ?thesis
    using assms(1,2) by (cases organizations) (simp_all add: mw validateAPIKey_def)
qed

theorem validateAPIKey_first_organization_witness:
  "AuthenticationMiddleware (warden [org_A, org_B]) req_S1 = Next (Some ctx_A)
   \<and> validateAPIKey (warden []) ''wdn_A'' = (None, None)
   \<and> AuthenticationMiddleware (warden []) req_S1 = Next None"
proof -
  have h1: "ValidateApiKey (warden orgs) ''wdn_A'' = Inr ''acct_1''" for orgs
    by (simp add: warden_def)
  have h2: "GetAccountOrganizations (warden orgs) ''acct_1'' = Inr orgs" for orgs
    by (simp add: warden_def)
  have h3: "header_Get (ReqHeader req_S1) ''Authorization'' = ''Bearer '' @ ''wdn_A''"
    by (simp add: req_S1_def header_Get_def)
  have h4: "HasPrefix ''wdn_A'' ''wdn_''"
    by simp
  show ?thesis
    using validateAPIKey_first_organization [OF h1 h2 h3 h4, of "[org_A, org_B]"]
      validateAPIKey_first_organization [OF h1 h2 h3 h4, of "[]"]
    by (simp add: org_A_def org_B_def ctx_A_def)
qed

text \<open>
  What follows downstream: the stored \<open>nil\<close> pointer passes the type assertion of
  GetOrganizationContext, and the traffic and pixel handlers panic when they read the
  organization id through it.
\<close>

lemma nil_context_panics:
  "CtxValue r = Some None \<Longrightarrow>
     GetOrganizationContext (CtxValue r) = (None, True)
     \<and> HandleTraffic cs r env s = (Panicked, s)
     \<and> HandlePixel r env s = (Panicked, s)"
  by (simp add: GetOrganizationContext_def HandleTraffic_def HandlePixel_def)

section \<open>Properties of the routing engine\<close>

subsection \<open>The scan of findBestMatch\<close>

lemma scan_skip:
  "\<not> eligible org (key, c) \<Longrightarrow>
     scanCampaigns ((key, c) # rest) org flat (bm, bs) = scanCampaigns rest org flat (bm, bs)"
  by (auto simp: eligible_def)

lemma scan_take:
  "eligible org (key, c) \<Longrightarrow>
     scanCampaigns ((key, c) # rest) org flat (bm, bs) =
       (if sint bs < sint (calculateMatchScore c flat)
        then scanCampaigns rest org flat (Some c, calculateMatchScore c flat)
        else scanCampaigns rest org flat (bm, bs))"
  by (simp add: eligible_def word_sless_alt Let_def)

lemma firstBest_here:
  assumes "eligible org (key, c)" and "sint bs < sint (calculateMatchScore c flat)"
    and "\<forall>kc\<in>set rest. eligible org kc \<longrightarrow>
           sint (calculateMatchScore (snd kc) flat) \<le> sint (calculateMatchScore c flat)"
  shows "firstBest org flat ((key, c) # rest) bs c"
  unfolding firstBest_def
  by (rule exI [of _ "[]"], rule exI [of _ key], rule exI [of _ rest]) (simp add: assms)

lemma firstBest_later:
  assumes "firstBest org flat rest b2 c" and "sint bs \<le> sint b2"
    and "eligible org kc \<longrightarrow> sint (calculateMatchScore (snd kc) flat) \<le> sint b2"
  shows "firstBest org flat (kc # rest) bs c"
proof -
  from assms(1) obtain pre key post where d: "rest = pre @ (key, c) # post"
      "eligible org (key, c)" "sint b2 < sint (calculateMatchScore c flat)"
      "\<forall>x\<in>set pre. eligible org x \<longrightarrow>
         sint (calculateMatchScore (snd x) flat) < sint (calculateMatchScore c flat)"
      "\<forall>x\<in>set post. eligible org x \<longrightarrow>
         sint (calculateMatchScore (snd x) flat) \<le> sint (calculateMatchScore c flat)"
    unfolding firstBest_def by blast
  have 1: "kc # rest = (kc # pre) @ (key, c) # post"
    using d(1) by simp
  have 2: "sint bs < sint (calculateMatchScore c flat)"
    using assms(2) d(3) by simp
  have 3: "\<forall>x\<in>set (kc # pre). eligible org x \<longrightarrow>
         sint (calculateMatchScore (snd x) flat) < sint (calculateMatchScore c flat)"
    using assms(3) d(3,4) by auto
  show ?thesis
    unfolding firstBest_def
    by (rule exI [of _ "kc # pre"], rule exI [of _ key], rule exI [of _ post])
       (use 1 2 3 d(2,5) in blast)
qed

text \<open>The loop either keeps its starting pair, when no entry that passes the filters
  scores above \<open>bs\<close>, or ends with the first entry of the highest score.\<close>

lemma scan_result:
  "scanCampaigns cs org flat (bm, bs) = (bm', bs') \<Longrightarrow>
     (bm' = bm \<and> bs' = bs
        \<and> (\<forall>kc\<in>set cs. eligible org kc \<longrightarrow> sint (calculateMatchScore (snd kc) flat) \<le> sint bs))
     \<or> (\<exists>c. bm' = Some c \<and> bs' = calculateMatchScore c flat \<and> firstBest org flat cs bs c)"
proof (induction cs arbitrary: bm bs)
  case Nil
  then show ?case by simp
next
  case (Cons kc rest)
  obtain key c where kc: "kc = (key, c)" by (cases kc)
  show ?case
  proof (cases "eligible org (key, c)")
    case False
    then have "scanCampaigns rest org flat (bm, bs) = (bm', bs')"
      using Cons.prems by (simp add: kc scan_skip del: scanCampaigns.simps)
    from Cons.IH [OF this] show ?thesis
    proof (elim disjE exE conjE)
      assume "bm' = bm" "bs' = bs"
        "\<forall>x\<in>set rest. eligible org x \<longrightarrow> sint (calculateMatchScore (snd x) flat) \<le> sint bs"
      then show ?thesis using False by (simp add: kc)
    next
      fix c2 assume a: "bm' = Some c2" "bs' = calculateMatchScore c2 flat"
        "firstBest org flat rest bs c2"
      have "firstBest org flat (kc # rest) bs c2"
        by (rule firstBest_later [OF a(3)]) (simp_all add: kc False)
      then show ?thesis using a(1,2) by simp
    qed
  next
    case True
    show ?thesis
    proof (cases "sint bs < sint (calculateMatchScore c flat)")
      case better: True
      then have "scanCampaigns rest org flat (Some c, calculateMatchScore c flat) = (bm', bs')"
        using Cons.prems True by (simp add: kc scan_take del: scanCampaigns.simps)
      from Cons.IH [OF this] show ?thesis
      proof (elim disjE exE conjE)
        assume a: "bm' = Some c" "bs' = calculateMatchScore c flat"
          "\<forall>x\<in>set rest. eligible org x \<longrightarrow>
               sint (calculateMatchScore (snd x) flat) \<le> sint (calculateMatchScore c flat)"
        have "firstBest org flat (kc # rest) bs c"
          unfolding kc by (rule firstBest_here [OF True better a(3)])
        then show ?thesis using a(1,2) by simp
      next
        fix c2 assume a: "bm' = Some c2" "bs' = calculateMatchScore c2 flat"
          "firstBest org flat rest (calculateMatchScore c flat) c2"
        have "firstBest org flat (kc # rest) bs c2"
          by (rule firstBest_later [OF a(3)]) (use better in \<open>simp_all add: kc\<close>)
        then show ?thesis using a(1,2) by simp
      qed
    next
      case worse: False
      then have "scanCampaigns rest org flat (bm, bs) = (bm', bs')"
        using Cons.prems True by (simp add: kc scan_take del: scanCampaigns.simps)
      from Cons.IH [OF this] show ?thesis
      proof (elim disjE exE conjE)
        assume "bm' = bm" "bs' = bs"
          "\<forall>x\<in>set rest. eligible org x \<longrightarrow> sint (calculateMatchScore (snd x) flat) \<le> sint bs"
        then show ?thesis using worse by (simp add: kc)
      next
        fix c2 assume a: "bm' = Some c2" "bs' = calculateMatchScore c2 flat"
          "firstBest org flat rest bs c2"
        have "firstBest org flat (kc # rest) bs c2"
          by (rule firstBest_later [OF a(3)]) (use worse in \<open>simp_all add: kc\<close>)
        then show ?thesis using a(1,2) by simp
      qed
    qed
  qed
qed

lemma firstBest_positive:
  "firstBest org flat cs 0 c \<Longrightarrow>
     \<exists>kc\<in>set cs. eligible org kc \<and> 0 < sint (calculateMatchScore (snd kc) flat)"
  unfolding firstBest_def by force

lemma findBestMatch_None_iff:
  "findBestMatch cs org ps = None \<longleftrightarrow>
     (\<forall>kc\<in>set cs. eligible org kc \<longrightarrow> sint (calculateMatchScore (snd kc) (flatParams ps [])) \<le> 0)"
proof -
  obtain bm bs where r: "scanCampaigns cs org (flatParams ps []) (None, 0) = (bm, bs)"
    by (cases "scanCampaigns cs org (flatParams ps []) (None, 0)")
  have f: "findBestMatch cs org ps = bm"
    by (simp add: findBestMatch_def r)
  from scan_result [OF r] show ?thesis
  proof (elim disjE exE conjE)
    assume "bm = None" "bs = 0"
      "\<forall>kc\<in>set cs. eligible org kc \<longrightarrow>
         sint (calculateMatchScore (snd kc) (flatParams ps [])) \<le> sint (0 :: 64 word)"
    then show ?thesis by (simp add: f)
  next
    fix c assume a: "bm = Some c" "firstBest org (flatParams ps []) cs 0 c"
    from firstBest_positive [OF a(2)] show ?thesis
      by (simp add: f a(1)) (meson not_le)
  qed
qed

lemma findBestMatch_Some:
  assumes "findBestMatch cs org ps = Some c"
  shows "firstBest org (flatParams ps []) cs 0 c"
proof -
  obtain bm bs where r: "scanCampaigns cs org (flatParams ps []) (None, 0) = (bm, bs)"
    by (cases "scanCampaigns cs org (flatParams ps []) (None, 0)")
  have f: "bm = Some c"
    using assms by (simp add: findBestMatch_def r)
  from scan_result [OF r] f show ?thesis
    by auto
qed

lemma scoreRules_sum:
  "scoreRules rules flat score =
     score + sum_list (map Priority (filter (\<lambda>rule. ruleMatches rule flat) rules))"
  by (induction rules arbitrary: score) simp_all

subsection \<open>Which campaign wins\<close>

text \<open>
  Claim C6, as the code has it. findBestMatch returns no campaign exactly when no entry
  that passes its filters (key prefix of the organization, status active) has a positive
  score. Otherwise it returns the entry of the highest score, and among several entries of
  that score the one that the loop over the map visits first; the campaign id plays no
  part. The score of a campaign is the sum of the priorities of its matching rules, in
  64-bit arithmetic.
\<close>

theorem findBestMatch_first_highest_score:
  "(findBestMatch cs org ps = None \<longleftrightarrow>
      (\<forall>kc\<in>set cs. eligible org kc \<longrightarrow>
         sint (calculateMatchScore (snd kc) (flatParams ps [])) \<le> 0))
   \<and> (\<forall>c. findBestMatch cs org ps = Some c \<longrightarrow> firstBest org (flatParams ps []) cs 0 c)
   \<and> (\<forall>c flat. calculateMatchScore c flat =
         sum_list (map Priority (filter (\<lambda>rule. ruleMatches rule flat) (Rules c))))"
  using findBestMatch_None_iff [of cs org ps] findBestMatch_Some [of cs org ps]
  by (simp add: calculateMatchScore_def scoreRules_sum)

theorem findBestMatch_first_highest_score_witness:
  "findBestMatch [(''org_A/b'', camp_b), (''org_A/a'', camp_a)] ''org_A'' [(''src'', [''fb''])]
     = Some camp_b
   \<and> firstBest ''org_A'' (flatParams [(''src'', [''fb''])] [])
        [(''org_A/b'', camp_b), (''org_A/a'', camp_a)] 0 camp_b
   \<and> calculateMatchScore camp_b [(''src'', ''fb'')] = 5"
proof -
  have h: "findBestMatch [(''org_A/b'', camp_b), (''org_A/a'', camp_a)] ''org_A''
             [(''src'', [''fb''])] = Some camp_b"
    by code_simp
  have s: "sum_list (map Priority (filter (\<lambda>rule. ruleMatches rule [(''src'', ''fb'')])
             (Rules camp_b))) = 5"
    by (simp add: camp_b_def rule_fb_def ruleMatches_def)
  show ?thesis
    using findBestMatch_first_highest_score
      [of "[(''org_A/b'', camp_b), (''org_A/a'', camp_a)]" "''org_A''" "[(''src'', [''fb''])]"]
      h s
    by simp
qed

text \<open>
  Against claim C6 as stated: two active campaigns of one tenant with equal scores. Visited
  in the order b, a the loop returns b, whose id is not the smaller one; visited in the
  order a, b it returns a. The same map and the same request give either result.
\<close>

theorem findBestMatch_tie_counterexample:
  "findBestMatch [(''org_A/b'', camp_b), (''org_A/a'', camp_a)] ''org_A'' [(''src'', [''fb''])]
     = Some camp_b
   \<and> findBestMatch [(''org_A/a'', camp_a), (''org_A/b'', camp_b)] ''org_A'' [(''src'', [''fb''])]
     = Some camp_a
   \<and> calculateMatchScore camp_a [(''src'', ''fb'')] = calculateMatchScore camp_b [(''src'', ''fb'')]
   \<and> CampaignID camp_a < CampaignID camp_b
   \<and> camp_a \<noteq> camp_b"
proof -
  have 1: "findBestMatch [(''org_A/b'', camp_b), (''org_A/a'', camp_a)] ''org_A''
             [(''src'', [''fb''])] = Some camp_b"
    by code_simp
  have 2: "findBestMatch [(''org_A/a'', camp_a), (''org_A/b'', camp_b)] ''org_A''
             [(''src'', [''fb''])] = Some camp_a"
    by code_simp
  have 3: "calculateMatchScore camp_a [(''src'', ''fb'')] = calculateMatchScore camp_b [(''src'', ''fb'')]"
    by (simp add: calculateMatchScore_def camp_a_def camp_b_def)
  have 4: "CampaignID camp_a < CampaignID camp_b" "camp_a \<noteq> camp_b"
    by (simp_all add: camp_a_def camp_b_def)
  from 1 2 3 4 show ?thesis by simp
qed

subsection \<open>When nothing matches\<close>




subsection \<open>The campaign named in the path\<close>

text \<open>
  Claim C1 at scenario S1. The tenant \<open>org_A\<close> owns the active campaign \<open>summer\<close> and
  requests \<open>/in/summer?click_id=abc&src=fb\<close>. HandleTraffic stores \<open>org_A/summer\<close> as
  the campaign id of the event and passes that to GetDestination, which prefixes the
  organization again and looks up \<open>org_A/org_A/summer\<close>. The lookup misses, no rule
  scores, there is no default campaign, and the answer is 302 to \<open>https://example.com/\<close>.
  Called with the id of the path, GetDestination returns the destination of the campaign
  with the inbound parameters appended.
\<close>

theorem HandleTraffic_S1_misses_campaign:
  "fst (HandleTraffic [(''org_A/summer'', summer)] req_S1 env0 sys0)
     = Responded \<lparr>StatusCode = 302, RespHeader = [(''Location'', ''https://example.com/'')],
                  RespBody = []\<rparr>
   \<and> EvCampaignID (Data (last (topic (snd (HandleTraffic [(''org_A/summer'', summer)] req_S1 env0 sys0)))))
     = ''org_A/summer''
   \<and> getCampaign [(''org_A/summer'', summer)] (''org_A'' @ ''/'' @ ''org_A/summer'') = None
   \<and> GetDestination [(''org_A/summer'', summer)] ''org_A'' ''summer'' (ReqQuery req_S1)
     = ''https://shop.example.com/s?click_id=abc&src=fb''"
  by code_simp

subsection \<open>Campaigns of another tenant\<close>

text \<open>
  Claim C5 at a failing input. The tenant \<open>acme/eu\<close> owns the active campaign
  \<open>promo\<close>, stored under the key \<open>acme/eu/promo\<close>. For a request of the tenant
  \<open>acme\<close> the filter of findBestMatch tests the key for the prefix \<open>acme/\<close>, which this
  key has, so the campaign of the other tenant is selected and the request is redirected
  to its destination.
\<close>

theorem findBestMatch_selects_other_tenant:
  "findBestMatch [(''acme/eu/promo'', camp_eu)] ''acme'' [(''src'', [''fb''])] = Some camp_eu
   \<and> OrganizationID camp_eu = ''acme/eu''
   \<and> OrganizationID camp_eu \<noteq> CtxOrganizationID ctx_acme
   \<and> fst (HandleTraffic [(''acme/eu/promo'', camp_eu)] req_acme env0 sys0)
       = Responded \<lparr>StatusCode = 302,
                    RespHeader = [(''Location'', ''https://eu.example.com/promo'')],
                    RespBody = []\<rparr>"
  by code_simp

text \<open>
  The overlap needs a slash inside a tenant id. When every key of the map is built from
  its campaign as \<open>org_id/campaign_id\<close> (as loadCampaigns, CreateCampaign and
  UpdateCampaign build it) and neither the requesting tenant's id nor the id of the
  selected campaign's tenant contains a slash, findBestMatch stays within the tenant.
\<close>

lemma prefix_slash_unique:
  "HasPrefix (a @ CHR ''/'' # x) (b @ ''/'') \<Longrightarrow> CHR ''/'' \<notin> set a \<Longrightarrow> CHR ''/'' \<notin> set b
     \<Longrightarrow> a = b"
proof (induction a arbitrary: b)
  case Nil
  then show ?case by (cases b) auto
next
  case (Cons c a)
  then show ?case by (cases b) auto
qed

lemma findBestMatch_same_tenant_without_slash:
  assumes "findBestMatch cs org ps = Some c"
    and "\<forall>kc\<in>set cs. fst kc = OrganizationID (snd kc) @ ''/'' @ CampaignID (snd kc)"
    and "CHR ''/'' \<notin> set org" and "CHR ''/'' \<notin> set (OrganizationID c)"
  shows "OrganizationID c = org"
proof -
  from findBestMatch_Some [OF assms(1)] obtain pre key post where
      d: "cs = pre @ (key, c) # post" and e: "eligible org (key, c)"
    unfolding firstBest_def by blast
  have k: "(key, c) \<in> set cs" "eligible org (key, c)"
    using d e by simp_all
  have "key = OrganizationID c @ CHR ''/'' # CampaignID c"
    using assms(2) k(1) by fastforce
  with k(2) have "HasPrefix (OrganizationID c @ CHR ''/'' # CampaignID c) (org @ ''/'')"
    by (simp add: eligible_def)
  from prefix_slash_unique [OF this assms(4) assms(3)] show ?thesis .
qed

subsection \<open>Appending the inbound parameters\<close>









section \<open>Properties of the handlers\<close>









subsection \<open>What becomes of the captured event\<close>




subsection \<open>The duplicate flag\<close>

text \<open>
  Claim C4 at scenario S3: two requests \<open>/in?click_id=dup1\<close> of \<open>org_A\<close>, one second
  apart. HandleTraffic starts the publishing goroutine before it runs the dedup check, so
  the flag is appended to an event that is already on its way. When the goroutine marshals
  before the check has returned, the second request is answered 302 to the same
  destination as the first, the check reports a duplicate, and the event that reaches the
  topic carries no fraud flag. Only when the goroutine marshals after the check does the
  published event carry \<open>duplicate_click\<close>.
\<close>

theorem duplicate_flag_missing_on_published_event:
  "fst (HandleTraffic [(''org_A/summer'', summer)] req_in env0 sys0)
     = fst (HandleTraffic [(''org_A/summer'', summer)] req_in env1
              (snd (HandleTraffic [(''org_A/summer'', summer)] req_in env0 sys0)))
   \<and> statusOf (fst (HandleTraffic [(''org_A/summer'', summer)] req_in env0 sys0)) = Some 302
   \<and> fst (isDuplicate ''org_A'' ''dup1'' env1
        (snd (HandleTraffic [(''org_A/summer'', summer)] req_in env0 sys0)))
   \<and> marshalBeforeDedup env1
   \<and> map (\<lambda>m. (EventID (Data m), FraudFlags (Data m)))
        (topic (snd (HandleTraffic [(''org_A/summer'', summer)] req_in env1
           (snd (HandleTraffic [(''org_A/summer'', summer)] req_in env0 sys0)))))
     = [(''e-1'', []), (''e-2'', [])]
   \<and> map (\<lambda>m. (EventID (Data m), FraudFlags (Data m)))
        (topic (snd (HandleTraffic [(''org_A/summer'', summer)] req_in
           (env1\<lparr>marshalBeforeDedup := False\<rparr>)
           (snd (HandleTraffic [(''org_A/summer'', summer)] req_in env0 sys0)))))
     = [(''e-1'', []), (''e-2'', [''duplicate_click''])]"
  by code_simp

subsection \<open>Requests without an organization context\<close>




subsection \<open>The captured body\<close>




end
